theory Spec2Isabelle
  imports Main "HOL-Library.Word"
begin

section \<open>The syntax tree consumed by the evaluator\<close>

text \<open>
  The node kinds are those \<open>executeWithContext\<close> in \<open>interpreter/vm/vm.go\<close> switches on,
  with the fields it reads. The declarations themselves live in package \<open>ast\<close>; the
  constructors below carry exactly the fields the evaluator accesses:
  \<open>IfBlock Condition Body Else\<close>, \<open>Alias From.Name To.Name\<close>, \<open>ModuleDecl Name Body\<close>,
  \<open>ClassDecl Name Body\<close>, \<open>FuncDecl Target MethodName MethodArgs Body\<close>,
  \<open>CallExpression Target Func.Name Args\<close>, \<open>Assignment LHS RHS\<close>, \<open>Begin Body Rescue\<close>,
  \<open>Rescue Exception.Classes[..].Name Body\<close>, \<open>Array Nodes\<close>, \<open>Hash Pairs\<close>.
  Go's \<open>int\<close> and \<open>float64\<close> payloads are 64-bit words (the float as its bit pattern).
\<close>

datatype node =
    IfBlock node "node list" "node list"
  | Alias string string
  | ModuleDecl string "node list"
  | ClassDecl string "node list"
  | FuncDecl "node option" string "(string \<times> node option) list" "node list"
  | SimpleString string
  | InterpolatedString string
  | Boolean bool
  | GlobalVariable string
  | ConstantInt "64 word"
  | ConstantFloat "64 word"
  | Symbol string
  | BareReference string
  | CallExpression "node option" string "node list"
  | Assignment node node
  | FileNameConstReference
  | Begin "node list" "node list"
  | Rescue "string list" "node list"
  | Array "node list"
  | Hash "(node \<times> node) list"
  | InstanceVariable string
  | Self

section \<open>Values, errors and outcomes\<close>

text \<open>
  A Go \<open>Value\<close> is an interface holding a pointer to a runtime object, or the nil
  interface. Identity of values is pointer identity.
\<close>

datatype "value" = nil | Ptr nat

text \<open>A frame of the call stack: the method or context name and the active file name.\<close>

type_synonym frame = "string \<times> string"

text \<open>
  Errors travel as result values. \<open>NameError\<close>, \<open>NoMethodError\<close> and \<open>LoadError\<close> are the three
  constructors \<open>vm.go\<close> calls, with the arguments it passes (the last one is the call-stack
  rendering \<open>vm.stack.String()\<close>, kept here as the ordered frame list it renders).
  \<open>ParseError\<close> is the struct declared in \<open>vm.go\<close>; it only has an \<open>Error()\<close> method, so it
  is not a \<open>Value\<close>. \<open>ValueError\<close> is an error raised inside the builtins package that is
  a runtime value; \<open>GoError\<close> is a plain Go error from that package.
\<close>

datatype error =
    NameError string string string "frame list"
  | NoMethodError string string string "frame list"
  | LoadError string "frame list"
  | ParseError string
  | ValueError "value"
  | GoError string

text \<open>
  A Go call either returns, panics (unrecoverable: nothing in the program recovers), or,
  in this model, exhausts the recursion budget.
\<close>

datatype 'a outcome = Done 'a | Panic | OutOfFuel

definition bindO :: "'a outcome \<Rightarrow> ('a \<Rightarrow> 'b outcome) \<Rightarrow> 'b outcome" where
  "bindO m f = (case m of Done a \<Rightarrow> f a | Panic \<Rightarrow> Panic | OutOfFuel \<Rightarrow> OutOfFuel)"

section \<open>The vm struct\<close>

record 'h vm =
  currentFilename :: string
  stack :: "frame list"
  ObjectSpace :: "string \<rightharpoonup> value"
  CurrentGlobals :: "string \<rightharpoonup> value"
  CurrentSymbols :: "string \<rightharpoonup> value"
  CurrentClasses :: "string \<rightharpoonup> value"
  CurrentModules :: "string \<rightharpoonup> value"
  localVariableStack :: "(string \<rightharpoonup> value) list"
  heap :: 'h

text \<open>Reading a Go map: a missing key yields the zero value, the nil interface.\<close>

definition mapGet :: "(string \<rightharpoonup> value) \<Rightarrow> string \<Rightarrow> value" where
  "mapGet m k = (case m k of None \<Rightarrow> nil | Some v \<Rightarrow> v)"

subsection \<open>Call stack and local-variable stack\<close>

text \<open>
  Modelled from the spec: the \<open>CallStack\<close> type of the builtins package (\<open>Unshift\<close>, \<open>Shift\<close>,
  \<open>String\<close>) is not part of the sources at hand. The spec describes a stack of frames, each
  a name plus the file name active when it was pushed, rendered most-recent-first.
  \<open>Unshift\<close> pushes one frame at the front, \<open>Shift\<close> removes the front frame.
\<close>

definition Unshift :: "string \<Rightarrow> string \<Rightarrow> 'h vm \<Rightarrow> 'h vm" where
  "Unshift name file v = v\<lparr>stack := (name, file) # stack v\<rparr>"

definition Shift :: "'h vm \<Rightarrow> 'h vm" where
  "Shift v = v\<lparr>stack := (case stack v of [] \<Rightarrow> [] | f # fs \<Rightarrow> fs)\<rparr>"

text \<open>
  Modelled from the spec: the \<open>localVariableStack\<close> type (\<open>unshift\<close>, \<open>shift\<close>, \<open>store\<close>,
  \<open>retrieve\<close>) is not part of the sources at hand. The spec describes a stack of scopes, each
  a mapping from local-variable name to value; lookup only ever consults the topmost scope.
\<close>

definition unshift :: "'h vm \<Rightarrow> 'h vm" where
  "unshift v = v\<lparr>localVariableStack := Map.empty # localVariableStack v\<rparr>"

definition shift :: "'h vm \<Rightarrow> 'h vm" where
  "shift v = v\<lparr>localVariableStack := (case localVariableStack v of [] \<Rightarrow> [] | s # ss \<Rightarrow> ss)\<rparr>"

definition store :: "string \<Rightarrow> value \<Rightarrow> 'h vm \<Rightarrow> 'h vm" where
  "store name val v =
     v\<lparr>localVariableStack :=
         (case localVariableStack v of [] \<Rightarrow> [] | s # ss \<Rightarrow> s(name \<mapsto> val) # ss)\<rparr>"

definition retrieve :: "string \<Rightarrow> 'h vm \<Rightarrow> value option" where
  "retrieve name v = (case localVariableStack v of [] \<Rightarrow> None | s # ss \<Rightarrow> s name)"

text \<open>The deferred \<open>vm.stack.Shift()\<close> calls registered by one invocation, run at its return.\<close>

fun runDefers :: "nat \<Rightarrow> 'h vm \<Rightarrow> 'h vm" where
  "runDefers 0 v = v"
| "runDefers (Suc d) v = runDefers d (Shift v)"

section \<open>The builtins package and the outside world, as parameters\<close>

text \<open>
  The closures \<open>vm.go\<close> hands to \<open>NewNativeMethod\<close>: \<open>to_s\<close> and \<open>require\<close> on the main
  object (the latter captures the \<open>loadPath\<close> array) and the alias wrapper, which captures
  the aliased method.
\<close>

datatype native = Native_to_s | Native_require "value" | Native_alias "value"

text \<open>
  What \<open>Execute\<close> on a method value runs: the closure of \<open>vm.go\<close> over a user-defined body,
  one of the native closures of \<open>vm.go\<close>, or a native function of the builtins package.
\<close>

datatype impl = RubyImpl "node list" | NativeImpl native | BuiltinImpl

datatype file_result = OpenFails | ReadFails | Contents string

text \<open>
  The object model (package builtins), the parser and the file system are not part of
  the sources at hand. Every function of theirs that \<open>vm.go\<close> calls is a field of this
  record, over an arbitrary object heap \<open>'h\<close>. A function that receives the vm as its class
  provider may read the whole vm; it returns the object heap only, so it cannot touch
  the registries or the two stacks.
\<close>

record 'h builtins =
  NewString :: "string \<Rightarrow> 'h vm \<Rightarrow> value \<times> 'h"
  NewFixnum :: "64 word \<Rightarrow> 'h vm \<Rightarrow> value \<times> 'h"
  NewFloat :: "64 word \<Rightarrow> 'h vm \<Rightarrow> value \<times> 'h"
  NewSymbol :: "string \<Rightarrow> 'h vm \<Rightarrow> value \<times> 'h"
  NewModule :: "string \<Rightarrow> 'h vm \<Rightarrow> value \<times> 'h"
  NewUserDefinedClass :: "string \<Rightarrow> 'h vm \<Rightarrow> value \<times> 'h"
  NewRubyMethod :: "string \<Rightarrow> (string \<times> node option) list \<Rightarrow> node list \<Rightarrow> 'h vm \<Rightarrow> value \<times> 'h"
  NewNativeMethod :: "string \<Rightarrow> native \<Rightarrow> 'h vm \<Rightarrow> value \<times> 'h"
  NewBuiltinClass :: "string \<Rightarrow> 'h vm \<Rightarrow> value \<times> 'h"
  NewBuiltinModule :: "string \<Rightarrow> 'h vm \<Rightarrow> value \<times> 'h"
  ClassNew :: "value \<Rightarrow> 'h vm \<Rightarrow> (value \<times> error option) \<times> 'h"
  Include :: "value \<Rightarrow> value \<Rightarrow> 'h vm \<Rightarrow> 'h"
  SetSuperClass :: "value \<Rightarrow> 'h vm \<Rightarrow> 'h"
  Append :: "value \<Rightarrow> value \<Rightarrow> 'h vm \<Rightarrow> 'h"
  HashAdd :: "value \<Rightarrow> value \<Rightarrow> value \<Rightarrow> 'h vm \<Rightarrow> 'h"
  AddMethod :: "value \<Rightarrow> value \<Rightarrow> 'h vm \<Rightarrow> 'h"
  AddPrivateMethod :: "value \<Rightarrow> value \<Rightarrow> 'h vm \<Rightarrow> 'h"
  AddInstanceMethod :: "value \<Rightarrow> value \<Rightarrow> 'h vm \<Rightarrow> 'h"
  SetInstanceVariable :: "value \<Rightarrow> string \<Rightarrow> value \<Rightarrow> 'h vm \<Rightarrow> 'h"
  Method :: "value \<Rightarrow> string \<Rightarrow> 'h vm \<Rightarrow> error + value"
  PrivateMethod :: "value \<Rightarrow> string \<Rightarrow> 'h vm \<Rightarrow> error + value"
  InstanceMethod :: "value \<Rightarrow> string \<Rightarrow> 'h vm \<Rightarrow> error + value"
  String :: "value \<Rightarrow> 'h vm \<Rightarrow> string"
  Class :: "value \<Rightarrow> 'h vm \<Rightarrow> value"
  Members :: "value \<Rightarrow> 'h vm \<Rightarrow> value list"
  StringValue :: "value \<Rightarrow> 'h vm \<Rightarrow> string option"
  isArray :: "value \<Rightarrow> 'h vm \<Rightarrow> bool"
  isHash :: "value \<Rightarrow> 'h vm \<Rightarrow> bool"
  isRubyModule :: "value \<Rightarrow> 'h vm \<Rightarrow> bool"
  isClass :: "value \<Rightarrow> 'h vm \<Rightarrow> bool"
  isModule :: "value \<Rightarrow> 'h vm \<Rightarrow> bool"
  MethodName :: "value \<Rightarrow> 'h vm \<Rightarrow> string"
  MethodImpl :: "value \<Rightarrow> 'h vm \<Rightarrow> impl"
  BindArgs :: "value \<Rightarrow> value \<Rightarrow> value list \<Rightarrow> 'h vm \<Rightarrow> error + (string \<times> value) list"
  BuiltinExecute :: "value \<Rightarrow> value \<Rightarrow> value list \<Rightarrow> 'h vm \<Rightarrow> (value \<times> error option) \<times> 'h"
  ErrorString :: "error \<Rightarrow> 'h vm \<Rightarrow> string"
  RubyParse :: "string \<Rightarrow> node list option"
  OpenFile :: "string \<Rightarrow> file_result"
  Join :: "string \<Rightarrow> string \<Rightarrow> string"
  emptyHeap :: 'h

section \<open>Helpers for threading the vm\<close>

definition alloc :: "('h vm \<Rightarrow> value \<times> 'h) \<Rightarrow> 'h vm \<Rightarrow> value \<times> 'h vm" where
  "alloc f v = (case f v of (x, h) \<Rightarrow> (x, v\<lparr>heap := h\<rparr>))"

definition mutate :: "('h vm \<Rightarrow> 'h) \<Rightarrow> 'h vm \<Rightarrow> 'h vm" where
  "mutate f v = v\<lparr>heap := f v\<rparr>"

type_synonym 'h result = "((value \<times> error option) \<times> 'h vm) outcome"

text \<open>\<open>vm.CurrentClasses[name].New(vm)\<close>: calling \<open>New\<close> on a missing (nil) class panics.\<close>

definition classNew :: "'h builtins \<Rightarrow> string \<Rightarrow> 'h vm \<Rightarrow> 'h result" where
  "classNew B name v =
     (case mapGet (CurrentClasses v) name of
        nil \<Rightarrow> Panic
      | Ptr c \<Rightarrow> (case ClassNew B (Ptr c) v of (r, h) \<Rightarrow> Done (r, v\<lparr>heap := h\<rparr>)))"

text \<open>
  \<open>err.(Value)\<close>: the type assertion of the begin/rescue case. \<open>ParseError\<close> has no
  \<open>String\<close> method and a plain Go error is no \<open>Value\<close> either.
\<close>

fun isValue :: "error \<Rightarrow> bool" where
  "isValue (ParseError f) = False"
| "isValue (GoError m) = False"
| "isValue e = True"

text \<open>\<open>rubyErr.String()\<close>, the display string of an error value, read in the current state.\<close>

definition displayString :: "'h builtins \<Rightarrow> error \<Rightarrow> 'h vm \<Rightarrow> string" where
  "displayString B e v = (case e of ValueError x \<Rightarrow> String B x v | _ \<Rightarrow> ErrorString B e v)"

section \<open>executeWithContext\<close>

text \<open>
  The state carried round the statement loop of \<open>executeWithContext\<close>: \<open>returnValue\<close>,
  \<open>returnErr\<close>, the number of deferred \<open>vm.stack.Shift()\<close> calls registered so far by this
  invocation, and the vm. \<open>Next\<close> goes on with the following statement; \<open>Return\<close> is a
  \<open>return\<close> statement inside the loop.
\<close>

datatype 'h flow =
    Next "value" "error option" nat "'h vm"
  | Return "value" "error option" nat "'h vm"

type_synonym 'h eval = "value \<Rightarrow> node list \<Rightarrow> 'h vm \<Rightarrow> 'h result"
type_synonym 'h exec = "value \<Rightarrow> value \<Rightarrow> value list \<Rightarrow> 'h vm \<Rightarrow> 'h result"

text \<open>The argument loop of a call expression (vm.go lines 438-446).\<close>

fun evalArgs :: "'h eval \<Rightarrow> value \<Rightarrow> node list \<Rightarrow> value list \<Rightarrow> 'h vm
    \<Rightarrow> ((error + value list) \<times> 'h vm) outcome" where
  "evalArgs ev context [] args v = Done (Inr args, v)"
| "evalArgs ev context (astArgument # rest) args v =
     bindO (ev context [astArgument] v) (\<lambda>((arg, err), v1).
       case err of
         Some e \<Rightarrow> Done (Inl e, v1)
       | None \<Rightarrow> evalArgs ev context rest (args @ [arg]) v1)"

text \<open>The element loop of an array literal (lines 510-517): the first error returns.\<close>

fun evalArrayNodes :: "'h eval \<Rightarrow> 'h builtins \<Rightarrow> value \<Rightarrow> value \<Rightarrow> node list \<Rightarrow> 'h vm
    \<Rightarrow> (error option \<times> 'h vm) outcome" where
  "evalArrayNodes ev B context array [] v = Done (None, v)"
| "evalArrayNodes ev B context array (n # rest) v =
     bindO (ev context [n] v) (\<lambda>((val, err), v1).
       case err of
         Some e \<Rightarrow> Done (Some e, v1)
       | None \<Rightarrow> evalArrayNodes ev B context array rest (mutate (Append B array val) v1))"

text \<open>The pair loop of a hash literal (lines 524-538): the first error breaks the loop.\<close>

fun evalHashPairs :: "'h eval \<Rightarrow> 'h builtins \<Rightarrow> value \<Rightarrow> value \<Rightarrow> (node \<times> node) list \<Rightarrow> 'h vm
    \<Rightarrow> (error option \<times> 'h vm) outcome" where
  "evalHashPairs ev B context hash [] v = Done (None, v)"
| "evalHashPairs ev B context hash ((k, x) # rest) v =
     bindO (ev context [k] v) (\<lambda>((key, err), v1).
       case err of
         Some e \<Rightarrow> Done (Some e, v1)
       | None \<Rightarrow>
           bindO (ev context [x] v1) (\<lambda>((val, err), v2).
             case err of
               Some e \<Rightarrow> Done (Some e, v2)
             | None \<Rightarrow> evalHashPairs ev B context hash rest (mutate (HashAdd B hash key val) v2)))"

text \<open>
  The inner loop of begin/rescue over one clause's exception-class names
  (lines 492-500). The result is \<open>matchingRescue\<close>, the current \<open>err\<close> and the vm.
  The comparison is against \<open>rubyErr\<close>, the error of the protected body.
\<close>

fun rescueClasses :: "'h eval \<Rightarrow> 'h builtins \<Rightarrow> value \<Rightarrow> error \<Rightarrow> node list \<Rightarrow> string list
    \<Rightarrow> error option \<Rightarrow> 'h vm \<Rightarrow> (bool \<times> error option \<times> 'h vm) outcome" where
  "rescueClasses ev B context rubyErr body [] err v = Done (False, err, v)"
| "rescueClasses ev B context rubyErr body (exceptionClass # rest) err v =
     (if exceptionClass = displayString B rubyErr v then
        bindO (ev context body v) (\<lambda>((x, err1), v1).
          case err1 of
            None \<Rightarrow> Done (True, None, v1)
          | Some e \<Rightarrow> rescueClasses ev B context rubyErr body rest (Some e) v1)
      else rescueClasses ev B context rubyErr body rest err v)"

text \<open>The outer loop of begin/rescue over the rescue clauses (lines 486-501).\<close>

fun rescueClauses :: "'h eval \<Rightarrow> 'h builtins \<Rightarrow> value \<Rightarrow> error \<Rightarrow> node list
    \<Rightarrow> bool \<Rightarrow> error option \<Rightarrow> 'h vm \<Rightarrow> (error option \<times> 'h vm) outcome" where
  "rescueClauses ev B context rubyErr [] matchingRescue err v = Done (err, v)"
| "rescueClauses ev B context rubyErr (rescue # rest) matchingRescue err v =
     (if matchingRescue then Done (err, v)
      else case rescue of
        Rescue classes body \<Rightarrow>
          bindO (rescueClasses ev B context rubyErr body classes err v) (\<lambda>(m, err1, v1).
            rescueClauses ev B context rubyErr rest m err1 v1)
      | _ \<Rightarrow> Panic)"

text \<open>\<open>target.Method(name)\<close>, then \<open>target.PrivateMethod(name)\<close> for an implicit receiver.\<close>

definition lookupMethod :: "'h builtins \<Rightarrow> value \<Rightarrow> string \<Rightarrow> bool \<Rightarrow> 'h vm \<Rightarrow> error + value" where
  "lookupMethod B target name usePrivateMethod v =
     (case Method B target name v of
        Inr m \<Rightarrow> Inr m
      | Inl err \<Rightarrow> if usePrivateMethod then PrivateMethod B target name v else Inl err)"

text \<open>
  One iteration of the statement loop: the \<open>switch statement.(type)\<close> of
  \<open>executeWithContext\<close> (lines 263-543). \<open>ev\<close> is the recursive call
  \<open>vm.executeWithContext\<close>, \<open>ex\<close> is \<open>method.Execute\<close>.
\<close>

fun execStatement :: "'h eval \<Rightarrow> 'h exec \<Rightarrow> 'h builtins \<Rightarrow> value
    \<Rightarrow> value \<Rightarrow> error option \<Rightarrow> nat \<Rightarrow> 'h vm \<Rightarrow> node \<Rightarrow> 'h flow outcome" where
  "execStatement ev ex B context rv re d v (IfBlock cond body els) =
     (let truthy = (case cond of
                      Boolean b \<Rightarrow> b
                    | BareReference name \<Rightarrow> name = ''nil''
                    | _ \<Rightarrow> True)
      in bindO (if truthy then ev context body v else ev context els v)
           (\<lambda>((rv1, re1), v1). Done (Next rv1 re1 d v1)))"
| "execStatement ev ex B context rv re d v (Alias from to) =
     (if context = nil \<or> \<not> isRubyModule B context v then Panic
      else case InstanceMethod B context from v of
        Inl err \<Rightarrow>
          Done (Return rv (Some (NameError from (String B context v) (String B context v) (stack v))) d v)
      | Inr m \<Rightarrow>
          (case alloc (NewNativeMethod B to (Native_alias m)) v of
             (w, v1) \<Rightarrow> Done (Next rv re d (mutate (AddInstanceMethod B context w) v1))))"
| "execStatement ev ex B context rv re d v (ModuleDecl name body) =
     (case alloc (NewModule B name) v of
        (theModule, v1) \<Rightarrow>
          bindO (ev theModule body (v1\<lparr>CurrentModules := (CurrentModules v1)(name \<mapsto> theModule)\<rparr>))
            (\<lambda>((x, err), v2).
               Done (Next theModule (case err of None \<Rightarrow> re | Some e \<Rightarrow> Some e) d v2)))"
| "execStatement ev ex B context rv re d v (ClassDecl name body) =
     (case alloc (NewUserDefinedClass B name) v of
        (theClass, v1) \<Rightarrow>
          bindO (ev theClass body (v1\<lparr>CurrentClasses := (CurrentClasses v1)(name \<mapsto> theClass)\<rparr>))
            (\<lambda>((x, err), v2).
               Done (Next rv (case err of None \<Rightarrow> re | Some e \<Rightarrow> Some e) d v2)))"
| "execStatement ev ex B context rv re d v (FuncDecl target name args body) =
     (case alloc (NewRubyMethod B name args body) v of
        (method, v1) \<Rightarrow>
          if context = mapGet (ObjectSpace v1) ''main'' then
            (case mapGet (CurrentModules v1) ''Kernel'' of
               nil \<Rightarrow> Panic
             | Ptr k \<Rightarrow> Done (Next method re d (mutate (AddPrivateMethod B (Ptr k) method) v1)))
          else if context \<noteq> nil \<and> isClass B context v1 then
            Done (Next method re d (mutate (AddInstanceMethod B context method) v1))
          else if context \<noteq> nil \<and> isModule B context v1 then
            (if target = Some Self
             then Done (Next method re d (mutate (AddMethod B context method) v1))
             else Done (Next method re d (mutate (AddInstanceMethod B context method) v1)))
          else Panic)"
| "execStatement ev ex B context rv re d v (SimpleString s) =
     (case alloc (NewString B s) v of (x, v1) \<Rightarrow> Done (Next x re d v1))"
| "execStatement ev ex B context rv re d v (InterpolatedString s) =
     (case alloc (NewString B s) v of (x, v1) \<Rightarrow> Done (Next x re d v1))"
| "execStatement ev ex B context rv re d v (Boolean b) =
     bindO (classNew B (if b then ''True'' else ''False'') v)
       (\<lambda>((x, e), v1). Done (Next x e d v1))"
| "execStatement ev ex B context rv re d v (GlobalVariable name) =
     Done (Next (mapGet (CurrentGlobals v) name) re d v)"
| "execStatement ev ex B context rv re d v (ConstantInt i) =
     (case alloc (NewFixnum B i) v of (x, v1) \<Rightarrow> Done (Next x re d v1))"
| "execStatement ev ex B context rv re d v (ConstantFloat f) =
     (case alloc (NewFloat B f) v of (x, v1) \<Rightarrow> Done (Next x re d v1))"
| "execStatement ev ex B context rv re d v (Symbol name) =
     (case CurrentSymbols v name of
        None \<Rightarrow>
          (case alloc (NewSymbol B name) v of
             (x, v1) \<Rightarrow> Done (Next x re d (v1\<lparr>CurrentSymbols := (CurrentSymbols v1)(name \<mapsto> x)\<rparr>)))
      | Some maybe \<Rightarrow> Done (Next maybe re d v))"
| "execStatement ev ex B context rv re d v (BareReference name) =
     (case retrieve name v of
        Some maybe \<Rightarrow> Done (Next maybe re d v)
      | None \<Rightarrow>
          (case ObjectSpace v name of
             Some maybe \<Rightarrow> Done (Next maybe re d v)
           | None \<Rightarrow>
               (case CurrentClasses v name of
                  Some maybe \<Rightarrow> Done (Next maybe re d v)
                | None \<Rightarrow>
                    (case CurrentModules v name of
                       Some maybe \<Rightarrow> Done (Next maybe re d v)
                     | None \<Rightarrow>
                         if context = nil \<or> Class B context v = nil then Panic
                         else Done (Next nil
                                (Some (NameError name (String B context v)
                                         (String B (Class B context v) v) (stack v))) d v)))))"
| "execStatement ev ex B context rv re d v (CallExpression tgt fname args) =
     bindO (case tgt of
              Some t \<Rightarrow>
                bindO (ev context [t] v) (\<lambda>((target, err), v1).
                  case err of
                    Some e \<Rightarrow> Done (Inl (Return nil (Some e) d v1))
                  | None \<Rightarrow> Done (Inr (target, False, v1)))
            | None \<Rightarrow> Done (Inr (context, True, v)))
       (\<lambda>r. case r of
          Inl early \<Rightarrow> Done early
        | Inr (target, usePrivateMethod, v1) \<Rightarrow>
            if target = nil then
              bindO (classNew B ''Nil'' v1) (\<lambda>((nilValue, e), v2).
                if nilValue = nil \<or> Class B nilValue v2 = nil then Panic
                else Done (Return nil
                       (Some (NoMethodError fname (String B nilValue v2)
                                (String B (Class B nilValue v2) v2) (stack v2))) d v2))
            else
              (case lookupMethod B target fname usePrivateMethod v1 of
                 Inl err \<Rightarrow> Done (Return nil (Some err) d v1)
               | Inr method \<Rightarrow>
                   bindO (evalArgs ev context args [] v1) (\<lambda>(a, v2).
                     case a of
                       Inl err \<Rightarrow> Done (Return nil (Some err) d v2)
                     | Inr argValues \<Rightarrow>
                         if method = nil then Panic
                         else
                           bindO (ex method target argValues
                                    (Unshift (MethodName B method v2) (currentFilename v2) v2))
                             (\<lambda>((rv1, re1), v3).
                                case re1 of
                                  Some e \<Rightarrow> Done (Return rv1 (Some e) (Suc d) v3)
                                | None \<Rightarrow> Done (Next rv1 None (Suc d) v3)))))"
| "execStatement ev ex B context rv re d v (Assignment lhs rhs) =
     bindO (ev context [rhs] v) (\<lambda>((assigned, err), v1).
       case err of
         Some e \<Rightarrow> Done (Return nil (Some e) d v1)
       | None \<Rightarrow>
           (case lhs of
              BareReference name \<Rightarrow>
                Done (Next rv re d (v1\<lparr>ObjectSpace := (ObjectSpace v1)(name \<mapsto> assigned)\<rparr>))
            | GlobalVariable name \<Rightarrow>
                Done (Next rv re d (v1\<lparr>CurrentGlobals := (CurrentGlobals v1)(name \<mapsto> assigned)\<rparr>))
            | InstanceVariable name \<Rightarrow>
                if context = nil then Panic
                else Done (Next rv re d (mutate (SetInstanceVariable B context name assigned) v1))
            | _ \<Rightarrow> Panic))"
| "execStatement ev ex B context rv re d v FileNameConstReference =
     (case alloc (NewString B (currentFilename v)) v of (x, v1) \<Rightarrow> Done (Next x re d v1))"
| "execStatement ev ex B context rv re d v (Begin body rescues) =
     bindO (ev context body v) (\<lambda>((x, err), v1).
       case err of
         None \<Rightarrow> Done (Next rv re d v1)
       | Some rubyErr \<Rightarrow>
           if \<not> isValue rubyErr then Panic
           else
             bindO (rescueClauses ev B context rubyErr rescues False (Some rubyErr) v1)
               (\<lambda>(err1, v2).
                  Done (Next rv (case err1 of None \<Rightarrow> re | Some e \<Rightarrow> Some e) d v2)))"
| "execStatement ev ex B context rv re d v (Array nodes) =
     bindO (classNew B ''Array'' v) (\<lambda>((arrayValue, e), v1).
       if arrayValue = nil \<or> \<not> isArray B arrayValue v1 then Panic
       else
         bindO (evalArrayNodes ev B context arrayValue nodes v1) (\<lambda>(err, v2).
           case err of
             Some e \<Rightarrow> Done (Return nil (Some e) d v2)
           | None \<Rightarrow> Done (Next arrayValue re d v2)))"
| "execStatement ev ex B context rv re d v (Hash pairs) =
     bindO (classNew B ''Hash'' v) (\<lambda>((hashValue, e), v1).
       if hashValue = nil \<or> \<not> isHash B hashValue v1 then Panic
       else
         bindO (evalHashPairs ev B context hashValue pairs v1) (\<lambda>(err, v2).
           Done (Next hashValue (case err of None \<Rightarrow> re | Some e \<Rightarrow> Some e) d v2)))"
| "execStatement ev ex B context rv re d v (Rescue classes body) = Panic"
| "execStatement ev ex B context rv re d v (InstanceVariable name) = Panic"
| "execStatement ev ex B context rv re d v Self = Panic"

text \<open>The \<open>for _, statement := range statements\<close> loop.\<close>

fun execLoop :: "(value \<Rightarrow> error option \<Rightarrow> nat \<Rightarrow> 'h vm \<Rightarrow> node \<Rightarrow> 'h flow outcome)
    \<Rightarrow> node list \<Rightarrow> value \<Rightarrow> error option \<Rightarrow> nat \<Rightarrow> 'h vm \<Rightarrow> 'h flow outcome" where
  "execLoop step [] rv re d v = Done (Next rv re d v)"
| "execLoop step (statement # rest) rv re d v =
     bindO (step rv re d v statement) (\<lambda>fl.
       case fl of
         Next rv1 re1 d1 v1 \<Rightarrow> execLoop step rest rv1 re1 d1 v1
       | Return rv1 re1 d1 v1 \<Rightarrow> Done fl)"

text \<open>
  The body of \<open>executeWithContext\<close>: \<open>returnValue\<close> and \<open>returnErr\<close> start as nil, the loop
  runs, and on either way out (a \<open>return\<close> in the loop or the final
  \<open>return returnValue, returnErr\<close>) the deferred \<open>Shift\<close> calls run.
\<close>

definition executeBody :: "'h eval \<Rightarrow> 'h exec \<Rightarrow> 'h builtins \<Rightarrow> value \<Rightarrow> node list \<Rightarrow> 'h vm
    \<Rightarrow> 'h result" where
  "executeBody ev ex B context statements v =
     bindO (execLoop (execStatement ev ex B context) statements nil None 0 v) (\<lambda>fl.
       case fl of
         Next rv re d v1 \<Rightarrow> Done ((rv, re), runDefers d v1)
       | Return rv re d v1 \<Rightarrow> Done ((rv, re), runDefers d v1))"

section \<open>Run, the native closures and method execution\<close>

type_synonym 'h run = "string \<Rightarrow> 'h vm \<Rightarrow> 'h result"

text \<open>
  \<open>Run\<close> (lines 240-255). A parse failure returns before anything is pushed. Otherwise one
  frame and one scope are pushed, the statements run against \<open>vm.ObjectSpace["main"]\<close>, and
  the two deferred pops run at return.
\<close>

definition runBody :: "'h eval \<Rightarrow> 'h builtins \<Rightarrow> string \<Rightarrow> 'h vm \<Rightarrow> 'h result" where
  "runBody ev B input v =
     (case RubyParse B input of
        None \<Rightarrow> Done ((nil, Some (ParseError (currentFilename v))), v)
      | Some statements \<Rightarrow>
          bindO (ev (mapGet (ObjectSpace v) ''main'') statements
                   (unshift (Unshift ''main'' (currentFilename v) v)))
            (\<lambda>(r, v1). Done (r, Shift (shift v1))))"

text \<open>
  The load-path loop of the \<open>require\<close> closure (lines 77-101). \<open>originalName\<close> is restored
  by the deferred function when the closure returns from inside the loop.
\<close>

fun requireLoop :: "'h run \<Rightarrow> 'h builtins \<Rightarrow> string \<Rightarrow> value list \<Rightarrow> 'h vm \<Rightarrow> 'h result" where
  "requireLoop run B fileName [] v =
     Done ((nil, Some (LoadError (''LoadError: cannot load such file -- '' @ fileName) (stack v))), v)"
| "requireLoop run B fileName (pathStr # rest) v =
     (case (if pathStr = nil then None else StringValue B pathStr v) of
        None \<Rightarrow> Panic
      | Some path \<Rightarrow>
          (case OpenFile B (Join B path (fileName @ ''.rb'')) of
             OpenFails \<Rightarrow> requireLoop run B fileName rest v
           | ReadFails \<Rightarrow> requireLoop run B fileName rest v
           | Contents contents \<Rightarrow>
               bindO (run contents (v\<lparr>currentFilename := Join B path (fileName @ ''.rb'')\<rparr>))
                 (\<lambda>((x, rubyErr), v1).
                    case rubyErr of
                      Some e \<Rightarrow> Done ((nil, Some e), v1\<lparr>currentFilename := currentFilename v\<rparr>)
                    | None \<Rightarrow>
                        bindO (classNew B ''True'' v1) (\<lambda>(r, v2).
                          Done (r, v2\<lparr>currentFilename := currentFilename v\<rparr>)))))"

text \<open>The \<open>require\<close> closure (lines 70-105); \<open>loadPath\<close> is the captured array.\<close>

definition require :: "'h run \<Rightarrow> 'h builtins \<Rightarrow> value \<Rightarrow> value list \<Rightarrow> 'h vm \<Rightarrow> 'h result" where
  "require run B loadPath args v =
     (case args of
        [] \<Rightarrow> Panic
      | a # as \<Rightarrow>
          (case (if a = nil then None else StringValue B a v) of
             None \<Rightarrow> Panic
           | Some fileName \<Rightarrow>
               if fileName = ''rubygems'' then classNew B ''False'' v
               else if loadPath = nil \<or> \<not> isArray B loadPath v then Panic
               else requireLoop run B fileName (Members B loadPath v) v))"

text \<open>
  \<open>method.Execute(target, args...)\<close>. For a user-defined method the builtins package binds
  the arguments (\<open>BindArgs\<close>: either an error, or the names and values \<open>method.Args()\<close> then
  yields) and calls the closure of lines 326-335: a fresh scope is pushed, the arguments
  are stored, the body runs with \<open>self\<close> as context, and the deferred pop runs at return.
\<close>

definition executeMethod :: "'h eval \<Rightarrow> 'h exec \<Rightarrow> 'h run \<Rightarrow> 'h builtins
    \<Rightarrow> value \<Rightarrow> value \<Rightarrow> value list \<Rightarrow> 'h vm \<Rightarrow> 'h result" where
  "executeMethod ev ex run B method self args v =
     (case MethodImpl B method v of
        RubyImpl body \<Rightarrow>
          (case BindArgs B method self args v of
             Inl e \<Rightarrow> Done ((nil, Some e), v)
           | Inr bound \<Rightarrow>
               bindO (ev self body (fold (\<lambda>(name, val). store name val) bound (unshift v)))
                 (\<lambda>(r, v1). Done (r, shift v1)))
      | NativeImpl Native_to_s \<Rightarrow>
          (case alloc (NewString B ''main'') v of (x, v1) \<Rightarrow> Done ((x, None), v1))
      | NativeImpl (Native_require loadPath) \<Rightarrow> require run B loadPath args v
      | NativeImpl (Native_alias m) \<Rightarrow> (if m = nil then Panic else ex m self args v)
      | BuiltinImpl \<Rightarrow>
          (case BuiltinExecute B method self args v of (r, h) \<Rightarrow> Done (r, v\<lparr>heap := h\<rparr>)))"

text \<open>
  The three mutually recursive entry points. The first argument bounds the depth of
  nested Go calls among them: each call made by \<open>executeWithContext\<close>, \<open>Execute\<close> and \<open>Run\<close>
  to one of the others gets one unit less.
\<close>

fun executeWithContext :: "'h builtins \<Rightarrow> nat \<Rightarrow> value \<Rightarrow> node list \<Rightarrow> 'h vm \<Rightarrow> 'h result"
  and Execute :: "'h builtins \<Rightarrow> nat \<Rightarrow> value \<Rightarrow> value \<Rightarrow> value list \<Rightarrow> 'h vm \<Rightarrow> 'h result"
  and Run :: "'h builtins \<Rightarrow> nat \<Rightarrow> string \<Rightarrow> 'h vm \<Rightarrow> 'h result" where
  "executeWithContext B 0 context statements v = OutOfFuel"
| "executeWithContext B (Suc n) context statements v =
     executeBody (\<lambda>c s w. executeWithContext B n c s w) (\<lambda>m t a w. Execute B n m t a w)
       B context statements v"
| "Execute B 0 method self args v = OutOfFuel"
| "Execute B (Suc n) method self args v =
     executeMethod (\<lambda>c s w. executeWithContext B n c s w) (\<lambda>m t a w. Execute B n m t a w)
       (\<lambda>i w. Run B n i w) B method self args v"
| "Run B 0 input v = OutOfFuel"
| "Run B (Suc n) input v = runBody (\<lambda>c s w. executeWithContext B n c s w) B input v"

section \<open>NewVM\<close>

definition registerClass :: "'h builtins \<Rightarrow> string \<Rightarrow> 'h vm \<Rightarrow> 'h vm" where
  "registerClass B name v =
     (case alloc (NewBuiltinClass B name) v of
        (c, v1) \<Rightarrow> v1\<lparr>CurrentClasses := (CurrentClasses v1)(name \<mapsto> c)\<rparr>)"

definition registerModule :: "'h builtins \<Rightarrow> string \<Rightarrow> 'h vm \<Rightarrow> 'h vm" where
  "registerModule B name v =
     (case alloc (NewBuiltinModule B name) v of
        (m, v1) \<Rightarrow> v1\<lparr>CurrentModules := (CurrentModules v1)(name \<mapsto> m)\<rparr>)"

text \<open>\<open>registerBuiltinClassesAndModules\<close> (lines 111-153), in the order of the source.\<close>

definition registerBuiltinClassesAndModules :: "'h builtins \<Rightarrow> 'h vm \<Rightarrow> 'h vm" where
  "registerBuiltinClassesAndModules B v =
     (let v1 = fold (registerClass B) [''BasicObject'', ''Object'', ''Class'', ''Module'']
                 (v\<lparr>CurrentClasses := Map.empty, CurrentModules := Map.empty\<rparr>);
          v2 = fold (registerModule B) [''Comparable'', ''Kernel'', ''Process''] v1;
          v3 = mutate (Include B (mapGet (CurrentClasses v2) ''Object'')
                         (mapGet (CurrentModules v2) ''Kernel'')) v2;
          v4 = mutate (Include B (mapGet (CurrentClasses v3) ''Module'')
                         (mapGet (CurrentModules v3) ''Kernel'')) v3;
          v5 = mutate (SetSuperClass B (mapGet (CurrentClasses v4) ''Class'')) v4;
          v6 = mutate (SetSuperClass B (mapGet (CurrentClasses v5) ''Object'')) v5;
          v7 = mutate (SetSuperClass B (mapGet (CurrentClasses v6) ''BasicObject'')) v6
      in fold (registerClass B)
           [''IO'', ''Array'', ''Hash'', ''True'', ''File'', ''False'', ''Nil'', ''String'',
            ''Fixnum'', ''Float'', ''Symbol''] v7)"

text \<open>\<open>x, _ := vm.CurrentClasses[name].New(vm)\<close> during start-up, the error dropped.\<close>

definition newInstance :: "'h builtins \<Rightarrow> string \<Rightarrow> 'h vm \<Rightarrow> value \<times> 'h vm" where
  "newInstance B name v =
     (case ClassNew B (mapGet (CurrentClasses v) name) v of ((x, e), h) \<Rightarrow> (x, v\<lparr>heap := h\<rparr>))"

text \<open>\<open>NewVM\<close> (lines 47-109). Both stacks start empty.\<close>

definition NewVM :: "'h builtins \<Rightarrow> string \<Rightarrow> string \<Rightarrow> 'h vm" where
  "NewVM B rubyHome name =
     (let v0 = registerBuiltinClassesAndModules B
                 \<lparr>currentFilename = name, stack = [], ObjectSpace = Map.empty,
                  CurrentGlobals = Map.empty, CurrentSymbols = Map.empty,
                  CurrentClasses = Map.empty, CurrentModules = Map.empty,
                  localVariableStack = [], heap = emptyHeap B\<rparr>
      in case newInstance B ''Array'' v0 of (loadPath, v1) \<Rightarrow>
         case alloc (NewString B (Join B rubyHome ''lib'')) v1 of (libDir, v2) \<Rightarrow>
         let v3 = mutate (Append B loadPath libDir) v2;
             v4 = v3\<lparr>CurrentGlobals := (CurrentGlobals v3)(''LOAD_PATH'' \<mapsto> loadPath, '':'' \<mapsto> loadPath)\<rparr>
         in case newInstance B ''Array'' v4 of (argv, v5) \<Rightarrow>
         let v6 = v5\<lparr>ObjectSpace := (ObjectSpace v5)(''ARGV'' \<mapsto> argv)\<rparr>
         in case newInstance B ''Object'' v6 of (main, v7) \<Rightarrow>
         case alloc (NewNativeMethod B ''to_s'' Native_to_s) v7 of (toS, v8) \<Rightarrow>
         let v9 = mutate (AddMethod B main toS) v8
         in case alloc (NewNativeMethod B ''require'' (Native_require loadPath)) v9 of (req, v10) \<Rightarrow>
         let v11 = mutate (AddMethod B main req) v10
         in v11\<lparr>ObjectSpace := (ObjectSpace v11)(''main'' \<mapsto> main)\<rparr>)"

section \<open>A concrete object model\<close>

text \<open>
  Modelled from the spec: the object model of the builtins package is not part of the
  sources at hand. This instance follows sections 3 and 4.2 of the specification: every
  value has an owning class, an instance-attribute table and a method table; classes and
  modules own an instance-method table, a private-method table and an inclusion list,
  and classes a superclass. It provides no native methods of its own. It serves to run
  the evaluator on concrete programs; the general theorems below hold for every instance
  of the parameter record.
\<close>

datatype kind0 =
    KObject
  | KClass string
  | KModule string
  | KString string
  | KFixnum "64 word"
  | KFloat "64 word"
  | KSymbol string
  | KArray "value list"
  | KHash "(value \<times> value) list"
  | KRubyMethod string "(string \<times> node option) list" "node list"
  | KNativeMethod string native

record obj0 =
  kind :: kind0
  cls :: "value"
  ivars :: "(string \<times> value) list"
  ownMethods :: "(string \<times> value) list"
  privateMethods :: "(string \<times> value) list"
  instanceMethods :: "(string \<times> value) list"
  included :: "value list"
  superclass :: "value"

text \<open>The heap is the list of allocated objects; a pointer is an index into it.\<close>

type_synonym heap0 = "obj0 list"

definition blank0 :: "kind0 \<Rightarrow> value \<Rightarrow> obj0" where
  "blank0 k c = \<lparr>kind = k, cls = c, ivars = [], ownMethods = [], privateMethods = [],
                 instanceMethods = [], included = [], superclass = nil\<rparr>"

definition new0 :: "obj0 \<Rightarrow> heap0 vm \<Rightarrow> value \<times> heap0" where
  "new0 ob v = (Ptr (length (heap v)), heap v @ [ob])"

definition get0 :: "heap0 \<Rightarrow> value \<Rightarrow> obj0 option" where
  "get0 h x = (case x of nil \<Rightarrow> None | Ptr a \<Rightarrow> if a < length h then Some (h ! a) else None)"

definition upd0 :: "value \<Rightarrow> (obj0 \<Rightarrow> obj0) \<Rightarrow> heap0 vm \<Rightarrow> heap0" where
  "upd0 x f v =
     (case x of
        nil \<Rightarrow> heap v
      | Ptr a \<Rightarrow> if a < length (heap v) then (heap v)[a := f (heap v ! a)] else heap v)"

definition MethodName0 :: "value \<Rightarrow> heap0 vm \<Rightarrow> string" where
  "MethodName0 m v =
     (case get0 (heap v) m of
        Some ob \<Rightarrow> (case kind ob of
                      KRubyMethod name formals body \<Rightarrow> name
                    | KNativeMethod name n \<Rightarrow> name
                    | _ \<Rightarrow> [])
      | None \<Rightarrow> [])"

definition String0 :: "value \<Rightarrow> heap0 vm \<Rightarrow> string" where
  "String0 x v =
     (case get0 (heap v) x of
        None \<Rightarrow> []
      | Some ob \<Rightarrow>
          (case kind ob of
             KClass name \<Rightarrow> name
           | KModule name \<Rightarrow> name
           | KString s \<Rightarrow> s
           | KSymbol s \<Rightarrow> s
           | KRubyMethod name formals body \<Rightarrow> name
           | KNativeMethod name n \<Rightarrow> name
           | _ \<Rightarrow>
               (case get0 (heap v) (cls ob) of
                  Some c \<Rightarrow> (case kind c of KClass name \<Rightarrow> ''#<'' @ name @ ''>'' | _ \<Rightarrow> [])
                | None \<Rightarrow> [])))"

definition Class0 :: "value \<Rightarrow> heap0 vm \<Rightarrow> value" where
  "Class0 x v = (case get0 (heap v) x of None \<Rightarrow> nil | Some ob \<Rightarrow> cls ob)"

text \<open>
  The resolution chain of section 4.2: a class, then its included modules, most recently
  included first, then the same up the superclass chain. The depth is bounded by the
  number of objects.
\<close>

fun chain0 :: "nat \<Rightarrow> heap0 \<Rightarrow> value \<Rightarrow> value list" where
  "chain0 0 h c = []"
| "chain0 (Suc n) h c =
     (case get0 h c of
        None \<Rightarrow> []
      | Some ob \<Rightarrow> c # rev (included ob) @ chain0 n h (superclass ob))"

fun firstIn0 :: "(obj0 \<Rightarrow> (string \<times> value) list) \<Rightarrow> heap0 \<Rightarrow> string \<Rightarrow> value list \<Rightarrow> value option" where
  "firstIn0 table h name [] = None"
| "firstIn0 table h name (c # cs) =
     (case get0 h c of
        None \<Rightarrow> firstIn0 table h name cs
      | Some ob \<Rightarrow>
          (case map_of (table ob) name of
             Some m \<Rightarrow> Some m
           | None \<Rightarrow> firstIn0 table h name cs))"

definition notFound0 :: "value \<Rightarrow> string \<Rightarrow> heap0 vm \<Rightarrow> error" where
  "notFound0 x name v = NoMethodError name (String0 x v) (String0 (Class0 x v) v) (stack v)"

definition Method0 :: "value \<Rightarrow> string \<Rightarrow> heap0 vm \<Rightarrow> error + value" where
  "Method0 x name v =
     (case get0 (heap v) x of
        None \<Rightarrow> Inl (notFound0 x name v)
      | Some ob \<Rightarrow>
          (case map_of (ownMethods ob) name of
             Some m \<Rightarrow> Inr m
           | None \<Rightarrow>
               (case firstIn0 instanceMethods (heap v) name
                       (chain0 (length (heap v)) (heap v) (cls ob)) of
                  Some m \<Rightarrow> Inr m
                | None \<Rightarrow> Inl (notFound0 x name v))))"

definition PrivateMethod0 :: "value \<Rightarrow> string \<Rightarrow> heap0 vm \<Rightarrow> error + value" where
  "PrivateMethod0 x name v =
     (case get0 (heap v) x of
        None \<Rightarrow> Inl (notFound0 x name v)
      | Some ob \<Rightarrow>
          (case map_of (privateMethods ob) name of
             Some m \<Rightarrow> Inr m
           | None \<Rightarrow>
               (case firstIn0 privateMethods (heap v) name
                       (chain0 (length (heap v)) (heap v) (cls ob)) of
                  Some m \<Rightarrow> Inr m
                | None \<Rightarrow> Inl (notFound0 x name v))))"

definition InstanceMethod0 :: "value \<Rightarrow> string \<Rightarrow> heap0 vm \<Rightarrow> error + value" where
  "InstanceMethod0 x name v =
     (case get0 (heap v) x of
        None \<Rightarrow> Inl (notFound0 x name v)
      | Some ob \<Rightarrow>
          (case map_of (instanceMethods ob) name of
             Some m \<Rightarrow> Inr m
           | None \<Rightarrow> Inl (notFound0 x name v)))"

definition ClassNew0 :: "value \<Rightarrow> heap0 vm \<Rightarrow> (value \<times> error option) \<times> heap0" where
  "ClassNew0 c v =
     (let k = (if mapGet (CurrentClasses v) ''Array'' = c then KArray []
               else if mapGet (CurrentClasses v) ''Hash'' = c then KHash []
               else KObject)
      in case new0 (blank0 k c) v of (x, h) \<Rightarrow> ((x, None), h))"

definition SetSuperClass0 :: "value \<Rightarrow> heap0 vm \<Rightarrow> heap0" where
  "SetSuperClass0 c v =
     upd0 c (\<lambda>ob. ob\<lparr>cls := mapGet (CurrentClasses v) ''Class'',
                     superclass := (case kind ob of
                                      KClass name \<Rightarrow>
                                        if name = ''Class'' then mapGet (CurrentClasses v) ''Module''
                                        else if name = ''Object'' then mapGet (CurrentClasses v) ''BasicObject''
                                        else nil
                                    | _ \<Rightarrow> nil)\<rparr>) v"

definition Members0 :: "value \<Rightarrow> heap0 vm \<Rightarrow> value list" where
  "Members0 x v =
     (case get0 (heap v) x of
        Some ob \<Rightarrow> (case kind ob of KArray xs \<Rightarrow> xs | _ \<Rightarrow> [])
      | None \<Rightarrow> [])"

definition StringValue0 :: "value \<Rightarrow> heap0 vm \<Rightarrow> string option" where
  "StringValue0 x v =
     (case get0 (heap v) x of
        Some ob \<Rightarrow> (case kind ob of KString s \<Rightarrow> Some s | _ \<Rightarrow> None)
      | None \<Rightarrow> None)"

definition hasKind0 :: "(kind0 \<Rightarrow> bool) \<Rightarrow> value \<Rightarrow> heap0 vm \<Rightarrow> bool" where
  "hasKind0 p x v = (case get0 (heap v) x of Some ob \<Rightarrow> p (kind ob) | None \<Rightarrow> False)"

definition MethodImpl0 :: "value \<Rightarrow> heap0 vm \<Rightarrow> impl" where
  "MethodImpl0 m v =
     (case get0 (heap v) m of
        Some ob \<Rightarrow> (case kind ob of
                      KRubyMethod name formals body \<Rightarrow> RubyImpl body
                    | KNativeMethod name n \<Rightarrow> NativeImpl n
                    | _ \<Rightarrow> BuiltinImpl)
      | None \<Rightarrow> BuiltinImpl)"

definition BindArgs0 :: "value \<Rightarrow> value \<Rightarrow> value list \<Rightarrow> heap0 vm \<Rightarrow> error + (string \<times> value) list" where
  "BindArgs0 m self args v =
     (case get0 (heap v) m of
        Some ob \<Rightarrow> (case kind ob of
                      KRubyMethod name formals body \<Rightarrow> Inr (zip (map fst formals) args)
                    | _ \<Rightarrow> Inr [])
      | None \<Rightarrow> Inr [])"

fun ErrorString0 :: "error \<Rightarrow> heap0 vm \<Rightarrow> string" where
  "ErrorString0 (NameError name recv c bt) v = ''NameError''"
| "ErrorString0 (NoMethodError name recv c bt) v = ''NoMethodError''"
| "ErrorString0 (LoadError msg bt) v = ''LoadError''"
| "ErrorString0 (ParseError f) v = ''parse error''"
| "ErrorString0 (ValueError x) v = String0 x v"
| "ErrorString0 (GoError msg) v = msg"

text \<open>
  The instance. The parser and the file system stay parameters; \<open>filepath.Join\<close> is
  taken without its path cleaning.
\<close>

definition B0 :: "(string \<Rightarrow> node list option) \<Rightarrow> (string \<Rightarrow> file_result) \<Rightarrow> heap0 builtins" where
  "B0 parse files =
     \<lparr>NewString = (\<lambda>s v. new0 (blank0 (KString s) (mapGet (CurrentClasses v) ''String'')) v),
      NewFixnum = (\<lambda>i v. new0 (blank0 (KFixnum i) (mapGet (CurrentClasses v) ''Fixnum'')) v),
      NewFloat = (\<lambda>f v. new0 (blank0 (KFloat f) (mapGet (CurrentClasses v) ''Float'')) v),
      NewSymbol = (\<lambda>s v. new0 (blank0 (KSymbol s) (mapGet (CurrentClasses v) ''Symbol'')) v),
      NewModule = (\<lambda>s v. new0 (blank0 (KModule s) (mapGet (CurrentClasses v) ''Module'')) v),
      NewUserDefinedClass =
        (\<lambda>s v. new0 ((blank0 (KClass s) (mapGet (CurrentClasses v) ''Class''))
                        \<lparr>superclass := mapGet (CurrentClasses v) ''Object''\<rparr>) v),
      NewRubyMethod =
        (\<lambda>name formals body v.
           new0 (blank0 (KRubyMethod name formals body) (mapGet (CurrentClasses v) ''Object'')) v),
      NewNativeMethod =
        (\<lambda>name n v. new0 (blank0 (KNativeMethod name n) (mapGet (CurrentClasses v) ''Object'')) v),
      NewBuiltinClass = (\<lambda>s v. new0 (blank0 (KClass s) (mapGet (CurrentClasses v) ''Class'')) v),
      NewBuiltinModule = (\<lambda>s v. new0 (blank0 (KModule s) (mapGet (CurrentClasses v) ''Module'')) v),
      ClassNew = ClassNew0,
      Include = (\<lambda>owner m v. upd0 owner (\<lambda>ob. ob\<lparr>included := included ob @ [m]\<rparr>) v),
      SetSuperClass = SetSuperClass0,
      Append = (\<lambda>a x v. upd0 a (\<lambda>ob. ob\<lparr>kind := (case kind ob of KArray xs \<Rightarrow> KArray (xs @ [x]) | k \<Rightarrow> k)\<rparr>) v),
      HashAdd = (\<lambda>a k x v. upd0 a (\<lambda>ob. ob\<lparr>kind := (case kind ob of KHash ps \<Rightarrow> KHash (ps @ [(k, x)]) | k \<Rightarrow> k)\<rparr>) v),
      AddMethod = (\<lambda>x m v. upd0 x (\<lambda>ob. ob\<lparr>ownMethods := (MethodName0 m v, m) # ownMethods ob\<rparr>) v),
      AddPrivateMethod =
        (\<lambda>x m v. upd0 x (\<lambda>ob. ob\<lparr>privateMethods := (MethodName0 m v, m) # privateMethods ob\<rparr>) v),
      AddInstanceMethod =
        (\<lambda>x m v. upd0 x (\<lambda>ob. ob\<lparr>instanceMethods := (MethodName0 m v, m) # instanceMethods ob\<rparr>) v),
      SetInstanceVariable = (\<lambda>x name val v. upd0 x (\<lambda>ob. ob\<lparr>ivars := (name, val) # ivars ob\<rparr>) v),
      Method = Method0,
      PrivateMethod = PrivateMethod0,
      InstanceMethod = InstanceMethod0,
      String = String0,
      Class = Class0,
      Members = Members0,
      StringValue = StringValue0,
      isArray = hasKind0 (\<lambda>k. case k of KArray xs \<Rightarrow> True | _ \<Rightarrow> False),
      isHash = hasKind0 (\<lambda>k. case k of KHash ps \<Rightarrow> True | _ \<Rightarrow> False),
      isRubyModule = hasKind0 (\<lambda>k. case k of KModule s \<Rightarrow> True | _ \<Rightarrow> False),
      isClass = hasKind0 (\<lambda>k. case k of KClass s \<Rightarrow> True | _ \<Rightarrow> False),
      isModule = hasKind0 (\<lambda>k. case k of KModule s \<Rightarrow> True | _ \<Rightarrow> False),
      MethodName = MethodName0,
      MethodImpl = MethodImpl0,
      BindArgs = BindArgs0,
      BuiltinExecute = (\<lambda>m self args v. ((nil, None), heap v)),
      ErrorString = ErrorString0,
      RubyParse = parse,
      OpenFile = files,
      Join = (\<lambda>a b. a @ ''/'' @ b),
      emptyHeap = []\<rparr>"

section \<open>Concrete inputs\<close>

text \<open>
  A parser table for a handful of scripts (the grammar is outside the sources at hand),
  a file system in which no file can be opened, and the vm \<open>NewVM\<close> builds from them.
\<close>

definition demoParse :: "string \<Rightarrow> node list option" where
  "demoParse src =
     (if src = ''to_s; qux'' then Some [CallExpression None ''to_s'' [], BareReference ''qux'']
      else if src = ''x = 5'' then Some [Assignment (BareReference ''x'') (ConstantInt 5)]
      else if src = '':a; :a'' then Some [Symbol ''a'', Symbol ''a'']
      else if src = ''require \"missing_file\"''
        then Some [CallExpression None ''require'' [SimpleString ''missing_file'']]
      else None)"

definition noFiles :: "string \<Rightarrow> file_result" where
  "noFiles path = OpenFails"

definition demoB :: "heap0 builtins" where
  "demoB = B0 demoParse noFiles"

definition demoVM :: "heap0 vm" where
  "demoVM = NewVM demoB ''/home/user/.grubby'' ''STDIN''"

definition demoMain :: "value" where
  "demoMain = mapGet (ObjectSpace demoVM) ''main''"

text \<open>
  A begin/rescue construct whose first recovery body fails: the protected body raises a
  name error, the first clause matches it and its body calls a method on nil.
\<close>

definition rescueDemo :: node where
  "rescueDemo =
     Begin [BareReference ''qux'']
       [Rescue [''NameError''] [CallExpression (Some (GlobalVariable ''x'')) ''foo'' []],
        Rescue [''NoMethodError''] [Assignment (GlobalVariable ''a'') (ConstantInt 1)],
        Rescue [''NameError''] [Assignment (GlobalVariable ''b'') (ConstantInt 2)]]"

text \<open>Projections of a result, for stating what a concrete evaluation returned.\<close>

definition valueOf :: "'h result \<Rightarrow> value option" where
  "valueOf r = (case r of Done ((x, e), v) \<Rightarrow> Some x | _ \<Rightarrow> None)"

definition errorOf :: "'h result \<Rightarrow> error option option" where
  "errorOf r = (case r of Done ((x, e), v) \<Rightarrow> Some e | _ \<Rightarrow> None)"

definition stateOf :: "'h result \<Rightarrow> 'h vm option" where
  "stateOf r = (case r of Done ((x, e), v) \<Rightarrow> Some v | _ \<Rightarrow> None)"

definition kindOf :: "heap0 result \<Rightarrow> kind0 option" where
  "kindOf r = (case r of Done ((x, e), v) \<Rightarrow> map_option kind (get0 (heap v) x) | _ \<Rightarrow> None)"

section \<open>What an evaluation leaves in place\<close>

text \<open>
  \<open>keeps v w\<close>: from \<open>v\<close> to \<open>w\<close> the call stack, the local-variable stack and the current
  file name are the same, and every interned symbol of \<open>v\<close> is still interned, to the
  same value.
\<close>

definition keeps :: "'h vm \<Rightarrow> 'h vm \<Rightarrow> bool" where
  "keeps v w \<longleftrightarrow>
     stack w = stack v \<and> localVariableStack w = localVariableStack v \<and>
     currentFilename w = currentFilename v \<and>
     (\<forall>name x. CurrentSymbols v name = Some x \<longrightarrow> CurrentSymbols w name = Some x)"

text \<open>
  \<open>pushed d v d' w\<close>: inside one invocation's statement loop, \<open>d' - d\<close> frames have been
  pushed on top of the call stack of \<open>v\<close>, one per deferred pop, and the rest is kept.
\<close>

definition pushed :: "nat \<Rightarrow> 'h vm \<Rightarrow> nat \<Rightarrow> 'h vm \<Rightarrow> bool" where
  "pushed d v d' w \<longleftrightarrow>
     d \<le> d' \<and> (\<exists>fs. length fs = d' - d \<and> stack w = fs @ stack v) \<and>
     localVariableStack w = localVariableStack v \<and>
     currentFilename w = currentFilename v \<and>
     (\<forall>name x. CurrentSymbols v name = Some x \<longrightarrow> CurrentSymbols w name = Some x)"

definition evalKeeps :: "'h eval \<Rightarrow> bool" where
  "evalKeeps ev \<longleftrightarrow> (\<forall>c s v r w. ev c s v = Done (r, w) \<longrightarrow> keeps v w)"

definition execKeeps :: "'h exec \<Rightarrow> bool" where
  "execKeeps ex \<longleftrightarrow> (\<forall>m t a v r w. ex m t a v = Done (r, w) \<longrightarrow> keeps v w)"

definition runKeeps :: "'h run \<Rightarrow> bool" where
  "runKeeps run \<longleftrightarrow> (\<forall>i v r w. run i v = Done (r, w) \<longrightarrow> keeps v w)"

fun flowOk :: "nat \<Rightarrow> 'h vm \<Rightarrow> 'h flow \<Rightarrow> bool" where
  "flowOk d v (Next rv re d' w) = pushed d v d' w"
| "flowOk d v (Return rv re d' w) = pushed d v d' w"

section \<open>Basic facts\<close>

lemma bindO_Done [simp]: "bindO (Done a) f = f a"
  and bindO_Panic [simp]: "bindO Panic f = Panic"
  and bindO_OutOfFuel [simp]: "bindO OutOfFuel f = OutOfFuel"
  by (simp_all add: bindO_def)

lemma bindO_weak_cong: "m = m' \<Longrightarrow> bindO m f = bindO m' f"
  by simp

lemma bindO_Done_iff: "bindO m f = Done r \<longleftrightarrow> (\<exists>a. m = Done a \<and> f a = Done r)"
  by (cases m) simp_all

subsection \<open>Evaluating the concrete object model\<close>

lemma B0_sel:
  "NewString (B0 p f) = (\<lambda>s v. new0 (blank0 (KString s) (mapGet (CurrentClasses v) ''String'')) v)"
  "NewFixnum (B0 p f) = (\<lambda>i v. new0 (blank0 (KFixnum i) (mapGet (CurrentClasses v) ''Fixnum'')) v)"
  "NewFloat (B0 p f) = (\<lambda>i v. new0 (blank0 (KFloat i) (mapGet (CurrentClasses v) ''Float'')) v)"
  "NewSymbol (B0 p f) = (\<lambda>s v. new0 (blank0 (KSymbol s) (mapGet (CurrentClasses v) ''Symbol'')) v)"
  "NewModule (B0 p f) = (\<lambda>s v. new0 (blank0 (KModule s) (mapGet (CurrentClasses v) ''Module'')) v)"
  "NewUserDefinedClass (B0 p f) =
        (\<lambda>s v. new0 ((blank0 (KClass s) (mapGet (CurrentClasses v) ''Class''))
                        \<lparr>superclass := mapGet (CurrentClasses v) ''Object''\<rparr>) v)"
  "NewRubyMethod (B0 p f) =
        (\<lambda>name formals body v.
           new0 (blank0 (KRubyMethod name formals body) (mapGet (CurrentClasses v) ''Object'')) v)"
  "NewNativeMethod (B0 p f) =
        (\<lambda>name n v. new0 (blank0 (KNativeMethod name n) (mapGet (CurrentClasses v) ''Object'')) v)"
  "NewBuiltinClass (B0 p f) = (\<lambda>s v. new0 (blank0 (KClass s) (mapGet (CurrentClasses v) ''Class'')) v)"
  "NewBuiltinModule (B0 p f) = (\<lambda>s v. new0 (blank0 (KModule s) (mapGet (CurrentClasses v) ''Module'')) v)"
  "ClassNew (B0 p f) = ClassNew0"
  "Include (B0 p f) = (\<lambda>owner m v. upd0 owner (\<lambda>ob. ob\<lparr>included := included ob @ [m]\<rparr>) v)"
  "SetSuperClass (B0 p f) = SetSuperClass0"
  "Append (B0 p f) =
        (\<lambda>a x v. upd0 a (\<lambda>ob. ob\<lparr>kind := (case kind ob of KArray xs \<Rightarrow> KArray (xs @ [x]) | k \<Rightarrow> k)\<rparr>) v)"
  "HashAdd (B0 p f) =
        (\<lambda>a k x v. upd0 a (\<lambda>ob. ob\<lparr>kind := (case kind ob of KHash ps \<Rightarrow> KHash (ps @ [(k, x)]) | k \<Rightarrow> k)\<rparr>) v)"
  "AddMethod (B0 p f) = (\<lambda>x m v. upd0 x (\<lambda>ob. ob\<lparr>ownMethods := (MethodName0 m v, m) # ownMethods ob\<rparr>) v)"
  "AddPrivateMethod (B0 p f) =
        (\<lambda>x m v. upd0 x (\<lambda>ob. ob\<lparr>privateMethods := (MethodName0 m v, m) # privateMethods ob\<rparr>) v)"
  "AddInstanceMethod (B0 p f) =
        (\<lambda>x m v. upd0 x (\<lambda>ob. ob\<lparr>instanceMethods := (MethodName0 m v, m) # instanceMethods ob\<rparr>) v)"
  "SetInstanceVariable (B0 p f) = (\<lambda>x name val v. upd0 x (\<lambda>ob. ob\<lparr>ivars := (name, val) # ivars ob\<rparr>) v)"
  "Method (B0 p f) = Method0"
  "PrivateMethod (B0 p f) = PrivateMethod0"
  "InstanceMethod (B0 p f) = InstanceMethod0"
  "String (B0 p f) = String0"
  "Class (B0 p f) = Class0"
  "Members (B0 p f) = Members0"
  "StringValue (B0 p f) = StringValue0"
  "isArray (B0 p f) = hasKind0 (\<lambda>k. case k of KArray xs \<Rightarrow> True | _ \<Rightarrow> False)"
  "isHash (B0 p f) = hasKind0 (\<lambda>k. case k of KHash ps \<Rightarrow> True | _ \<Rightarrow> False)"
  "isRubyModule (B0 p f) = hasKind0 (\<lambda>k. case k of KModule s \<Rightarrow> True | _ \<Rightarrow> False)"
  "isClass (B0 p f) = hasKind0 (\<lambda>k. case k of KClass s \<Rightarrow> True | _ \<Rightarrow> False)"
  "isModule (B0 p f) = hasKind0 (\<lambda>k. case k of KModule s \<Rightarrow> True | _ \<Rightarrow> False)"
  "MethodName (B0 p f) = MethodName0"
  "MethodImpl (B0 p f) = MethodImpl0"
  "BindArgs (B0 p f) = BindArgs0"
  "BuiltinExecute (B0 p f) = (\<lambda>m self args v. ((nil, None), heap v))"
  "ErrorString (B0 p f) = ErrorString0"
  "RubyParse (B0 p f) = p"
  "OpenFile (B0 p f) = f"
  "Join (B0 p f) = (\<lambda>a b. a @ ''/'' @ b)"
  "emptyHeap (B0 p f) = []"
  by (simp_all add: B0_def)

lemmas b0_defs = new0_def blank0_def get0_def upd0_def MethodName0_def String0_def Class0_def
  notFound0_def Method0_def PrivateMethod0_def InstanceMethod0_def ClassNew0_def SetSuperClass0_def
  Members0_def StringValue0_def hasKind0_def MethodImpl0_def BindArgs0_def

lemmas vm_defs = alloc_def mutate_def mapGet_def classNew_def Unshift_def Shift_def unshift_def
  shift_def store_def retrieve_def displayString_def lookupMethod_def executeBody_def runBody_def
  require_def executeMethod_def registerClass_def registerModule_def newInstance_def

lemmas proj_defs = valueOf_def errorOf_def stateOf_def kindOf_def

text \<open>The vm \<open>NewVM\<close> builds over the concrete object model, computed once.\<close>

lemma NewVM_B0: "NewVM (B0 p f) home name =
  \<lparr>currentFilename = name, stack = [],
   ObjectSpace = [''ARGV'' \<mapsto> Ptr 20, ''main'' \<mapsto> Ptr 21],
   CurrentGlobals = [''LOAD_PATH'' \<mapsto> Ptr 18, '':'' \<mapsto> Ptr 18],
   CurrentSymbols = Map.empty,
   CurrentClasses = [''BasicObject'' \<mapsto> Ptr 0, ''Object'' \<mapsto> Ptr 1, ''Class'' \<mapsto> Ptr 2,
      ''Module'' \<mapsto> Ptr 3, ''IO'' \<mapsto> Ptr 7, ''Array'' \<mapsto> Ptr 8, ''Hash'' \<mapsto> Ptr 9,
      ''True'' \<mapsto> Ptr 10, ''File'' \<mapsto> Ptr 11, ''False'' \<mapsto> Ptr 12, ''Nil'' \<mapsto> Ptr 13,
      ''String'' \<mapsto> Ptr 14, ''Fixnum'' \<mapsto> Ptr 15, ''Float'' \<mapsto> Ptr 16, ''Symbol'' \<mapsto> Ptr 17],
   CurrentModules = [''Comparable'' \<mapsto> Ptr 4, ''Kernel'' \<mapsto> Ptr 5, ''Process'' \<mapsto> Ptr 6],
   localVariableStack = [],
   heap = [blank0 (KClass ''BasicObject'') (Ptr 2),
           (blank0 (KClass ''Object'') (Ptr 2))\<lparr>included := [Ptr 5], superclass := Ptr 0\<rparr>,
           (blank0 (KClass ''Class'') (Ptr 2))\<lparr>superclass := Ptr 3\<rparr>,
           (blank0 (KClass ''Module'') (Ptr 2))\<lparr>included := [Ptr 5]\<rparr>,
           blank0 (KModule ''Comparable'') (Ptr 3),
           blank0 (KModule ''Kernel'') (Ptr 3),
           blank0 (KModule ''Process'') (Ptr 3),
           blank0 (KClass ''IO'') (Ptr 2),
           blank0 (KClass ''Array'') (Ptr 2),
           blank0 (KClass ''Hash'') (Ptr 2),
           blank0 (KClass ''True'') (Ptr 2),
           blank0 (KClass ''File'') (Ptr 2),
           blank0 (KClass ''False'') (Ptr 2),
           blank0 (KClass ''Nil'') (Ptr 2),
           blank0 (KClass ''String'') (Ptr 2),
           blank0 (KClass ''Fixnum'') (Ptr 2),
           blank0 (KClass ''Float'') (Ptr 2),
           blank0 (KClass ''Symbol'') (Ptr 2),
           blank0 (KArray [Ptr 19]) (Ptr 8),
           blank0 (KString (home @ ''/lib'')) (Ptr 14),
           blank0 (KArray []) (Ptr 8),
           (blank0 KObject (Ptr 1))\<lparr>ownMethods := [(''require'', Ptr 23), (''to_s'', Ptr 22)]\<rparr>,
           blank0 (KNativeMethod ''to_s'' Native_to_s) (Ptr 1),
           blank0 (KNativeMethod ''require'' (Native_require (Ptr 18))) (Ptr 1)]\<rparr>"
  by (simp add: NewVM_def registerBuiltinClassesAndModules_def Let_def B0_sel b0_defs vm_defs
        eval_nat_numeral cong: let_weak_cong)

lemmas demo_defs = demoVM_def demoB_def demoMain_def NewVM_B0 demoParse_def noFiles_def

lemmas eval_simps = demo_defs B0_sel b0_defs vm_defs proj_defs eval_nat_numeral

lemma demoMain_eq: "demoMain = Ptr 21"
  by (simp add: demo_defs mapGet_def)

section \<open>Global-variable reads\<close>

text \<open>
  C10. Reading a \<open>$\<close>-prefixed global that was never assigned yields the nil value and
  no error, and leaves the vm as it was: the Go map read returns the zero value, and
  no name-undefined error is built.
\<close>

theorem global_read_unassigned:
  "CurrentGlobals v name = None \<Longrightarrow>
     executeWithContext B (Suc n) context [GlobalVariable name] v = Done ((nil, None), v)"
  by (simp add: executeBody_def mapGet_def)

theorem global_read_unassigned_witness:
  "CurrentGlobals demoVM ''x'' = None \<and>
   executeWithContext demoB (Suc 0) demoMain [GlobalVariable ''x''] demoVM = Done ((nil, None), demoVM)"
proof -
  have h: "CurrentGlobals demoVM ''x'' = None"
    by (simp add: demo_defs)
  from global_read_unassigned [OF h] h show ?thesis
    by blast
qed

section \<open>Conditionals\<close>

text \<open>
  C1. The condition of an if-block is inspected, not evaluated. For a bare-name
  condition the code computes \<open>truthy = (Name == "nil")\<close> (line 271): the then-body runs
  exactly when the name is literally \<open>nil\<close>, and the else-body runs for every other bare
  name. This is the opposite of the claimed rule (false if and only if the name is
  \<open>nil\<close>). The theorem states what the code does; at \<open>if nil\<close> the then-body is taken.
\<close>

theorem if_bare_name_condition:
  "executeWithContext B (Suc n) context [IfBlock (BareReference name) body els] v =
     executeWithContext B n context (if name = ''nil'' then body else els) v"
  by (cases "executeWithContext B n context (if name = ''nil'' then body else els) v")
     (auto simp add: executeBody_def split: prod.splits)

theorem if_bare_name_condition_witness:
  "kindOf (executeWithContext demoB (Suc (Suc 0)) demoMain
       [IfBlock (BareReference ''nil'') [SimpleString ''then''] [SimpleString ''else'']] demoVM)
     = Some (KString ''then'')"
  apply (subst if_bare_name_condition)
  apply (simp add: eval_simps cong: bindO_weak_cong)
  done

section \<open>Assignment\<close>

text \<open>
  C4. An assignment to a bare name evaluates its right-hand side and binds the value in
  Object Space, but \<open>returnValue, err := ...\<close> on line 458 declares a new \<open>returnValue\<close> in
  the case clause, so the function's own \<open>returnValue\<close> is not set: a sequence whose only
  statement is an assignment returns nil, not the assigned value. The theorem states
  what the code returns; the witness runs \<open>x = 5\<close>.
\<close>

theorem assignment_result:
  "executeWithContext B (Suc n) context [Assignment (BareReference name) rhs] v =
     bindO (executeWithContext B n context [rhs] v) (\<lambda>((x, err), v1).
       case err of
         Some e \<Rightarrow> Done ((nil, Some e), v1)
       | None \<Rightarrow> Done ((nil, None), v1\<lparr>ObjectSpace := (ObjectSpace v1)(name \<mapsto> x)\<rparr>))"
  by (cases "executeWithContext B n context [rhs] v")
     (auto simp add: executeBody_def split: prod.splits option.splits)

theorem assignment_result_witness:
  "valueOf (executeWithContext demoB (Suc (Suc 0)) demoMain
       [Assignment (BareReference ''x'') (ConstantInt 5)] demoVM) = Some nil \<and>
   map_option (\<lambda>v. map_option kind (get0 (heap v) (mapGet (ObjectSpace v) ''x'')))
     (stateOf (executeWithContext demoB (Suc (Suc 0)) demoMain
       [Assignment (BareReference ''x'') (ConstantInt 5)] demoVM)) = Some (Some (KFixnum 5))"
  apply (subst assignment_result)
  apply (subst assignment_result)
  apply (simp add: eval_simps cong: bindO_weak_cong)
  done

section \<open>Bare-name reads\<close>

text \<open>
  C6. A bare name is looked up in the current local scope, then in Object Space, then in
  the class registry, then in the module registry, in this order; the first hit is
  the result and nothing changes. If none has the name, the result is nil together with
  a name-undefined error that carries the name, the context's display string, the display
  string of the context's class, and the current call stack. (With a nil context, or a
  context whose class is nil, building the error dereferences nil and panics.)
\<close>

theorem bare_name_resolution:
  "executeWithContext B (Suc n) context [BareReference name] v =
     (case retrieve name v of
        Some x \<Rightarrow> Done ((x, None), v)
      | None \<Rightarrow>
         (case ObjectSpace v name of
            Some x \<Rightarrow> Done ((x, None), v)
          | None \<Rightarrow>
             (case CurrentClasses v name of
                Some x \<Rightarrow> Done ((x, None), v)
              | None \<Rightarrow>
                 (case CurrentModules v name of
                    Some x \<Rightarrow> Done ((x, None), v)
                  | None \<Rightarrow>
                      if context = nil \<or> Class B context v = nil then Panic
                      else Done ((nil, Some (NameError name (String B context v)
                                   (String B (Class B context v) v) (stack v))), v)))))"
  by (simp add: executeBody_def split: option.splits)

theorem bare_name_resolution_witness:
  "executeWithContext demoB (Suc 0) demoMain [BareReference ''qux''] demoVM =
     Done ((nil, Some (NameError ''qux'' ''#<Object>'' ''Object'' [])), demoVM) \<and>
   valueOf (executeWithContext demoB (Suc 0) demoMain [BareReference ''Kernel''] demoVM) = Some (Ptr 5) \<and>
   valueOf (executeWithContext demoB (Suc 0) demoMain [BareReference ''String''] demoVM) = Some (Ptr 14) \<and>
   valueOf (executeWithContext demoB (Suc 0) demoMain [BareReference ''main''] demoVM) = Some (Ptr 21) \<and>
   valueOf (executeWithContext demoB (Suc 0) demoMain [BareReference ''main'']
              (store ''main'' (Ptr 0) (unshift demoVM))) = Some (Ptr 0)"
  apply (simp only: bare_name_resolution)
  apply (simp add: eval_simps)
  done

section \<open>Module and class declarations\<close>

text \<open>
  C8, as amended. A module or class declaration always creates a fresh Module or Class
  (it never looks an existing one up), registers it under its name at once, replacing
  any earlier entry, and only then evaluates the body with the new Module or Class as
  context, in a vm whose registry already holds it. A module declaration yields the
  module, a class declaration leaves the result value as it was; either passes the
  body's error on.
\<close>

theorem declaration_registers_first:
  "executeWithContext B (Suc n) context [ModuleDecl name body] v =
     (case NewModule B name v of (m, h) \<Rightarrow>
        bindO (executeWithContext B n m body
                 (v\<lparr>heap := h, CurrentModules := (CurrentModules v)(name \<mapsto> m)\<rparr>))
          (\<lambda>((x, err), v1). Done ((m, err), v1))) \<and>
   executeWithContext B (Suc n) context [ClassDecl name body] v =
     (case NewUserDefinedClass B name v of (c, h) \<Rightarrow>
        bindO (executeWithContext B n c body
                 (v\<lparr>heap := h, CurrentClasses := (CurrentClasses v)(name \<mapsto> c)\<rparr>))
          (\<lambda>((x, err), v1). Done ((nil, err), v1)))"
  by (auto simp add: executeBody_def alloc_def bindO_def split: prod.splits option.splits outcome.splits)

theorem declaration_registers_first_witness:
  "errorOf (executeWithContext demoB (Suc (Suc 0)) demoMain [ModuleDecl ''Foo'' [BareReference ''Foo'']] demoVM) = Some None \<and>
   valueOf (executeWithContext demoB (Suc (Suc 0)) demoMain [ModuleDecl ''Foo'' [BareReference ''Foo'']] demoVM) = Some (Ptr 24) \<and>
   map_option (\<lambda>v. CurrentModules v ''Foo'') (stateOf (executeWithContext demoB (Suc (Suc 0)) demoMain [ModuleDecl ''Foo'' [BareReference ''Foo'']] demoVM)) = Some (Some (Ptr 24)) \<and>
   map_option (\<lambda>v. CurrentClasses v ''Bar'') (stateOf (executeWithContext demoB (Suc (Suc 0)) demoMain [ClassDecl ''Bar'' [BareReference ''Bar'']] demoVM)) = Some (Some (Ptr 24))"
  apply (simp only: declaration_registers_first [THEN conjunct1] declaration_registers_first [THEN conjunct2])
  apply (simp add: eval_simps cong: bindO_weak_cong)
  done

text \<open>
  C8 as claimed (the body is evaluated first and the registration comes only afterwards)
  fails: \<open>Foo\<close> is in no scope or registry of the fresh vm, and a bare \<open>Foo\<close> raises a
  name-undefined error there; yet inside \<open>module Foo; Foo; end\<close> the same bare name
  resolves without error, because the module is registered before its body runs.
\<close>

theorem declaration_registers_last_counterexample:
  "CurrentModules demoVM ''Foo'' = None \<and>
   errorOf (executeWithContext demoB (Suc 0) demoMain [BareReference ''Foo''] demoVM) =
     Some (Some (NameError ''Foo'' ''#<Object>'' ''Object'' [])) \<and>
   errorOf (executeWithContext demoB (Suc (Suc 0)) demoMain
              [ModuleDecl ''Foo'' [BareReference ''Foo'']] demoVM) = Some None"
  by (simp add: eval_simps cong: bindO_weak_cong)

section \<open>Begin/rescue\<close>

text \<open>
  Whether the remaining rescue iteration ends handled, and in which state, does not
  depend on the error that is pending when it starts: the loops only ever compare
  class names with \<open>rubyErr\<close>, the error of the protected body.
\<close>

lemma rescueClasses_pending:
  "(case (rescueClasses ev B c rubyErr body names (Some e1) v,
          rescueClasses ev B c rubyErr body names (Some e2) v) of
      (Done (m1, r1, w1), Done (m2, r2, w2)) \<Rightarrow>
         m1 = m2 \<and> w1 = w2 \<and> (r1 = None) = m1 \<and> (r2 = None) = m2
    | (Panic, Panic) \<Rightarrow> True
    | (OutOfFuel, OutOfFuel) \<Rightarrow> True
    | _ \<Rightarrow> False)"
proof (induction names arbitrary: e1 e2 v)
  case Nil
  show ?case by simp
next
  case (Cons a names)
  show ?case
  proof (cases "a = displayString B rubyErr v")
    case False
    with Cons.IH [of e1 v e2] show ?thesis by simp
  next
    case True
    show ?thesis
    proof (cases "ev c body v")
      case (Done r)
      obtain x err1 v1 where r: "r = ((x, err1), v1)" by (cases r) auto
      show ?thesis
      proof (cases err1)
        case None
        with True Done r show ?thesis by simp
      next
        case (Some e)
        with True Done r Cons.IH [of e v1 e] show ?thesis by simp
      qed
    qed (simp_all add: True)
  qed
qed

lemma rescueClauses_matched [simp]:
  "rescueClauses ev B c rubyErr clauses True err v = Done (err, v)"
  by (cases clauses) simp_all

lemma rescueClauses_pending:
  "bindO (rescueClauses ev B c rubyErr clauses False (Some e1) v) (\<lambda>(err, w). Done (err = None, w)) =
   bindO (rescueClauses ev B c rubyErr clauses False (Some e2) v) (\<lambda>(err, w). Done (err = None, w))"
proof (induction clauses arbitrary: e1 e2 v)
  case Nil
  show ?case by simp
next
  case (Cons r clauses)
  show ?case
  proof (cases r)
    case (Rescue classes body)
    let ?A = "rescueClasses ev B c rubyErr body classes (Some e1) v"
    let ?B = "rescueClasses ev B c rubyErr body classes (Some e2) v"
    note rel = rescueClasses_pending [of ev B c rubyErr body classes e1 v e2]
    show ?thesis
    proof (cases ?A)
      case (Done a)
      obtain m r1 w where a: "a = (m, r1, w)" by (cases a) auto
      from rel Done a obtain r2 where B: "?B = Done (m, r2, w)"
        and r1: "(r1 = None) = m" and r2: "(r2 = None) = m"
        by (cases ?B) auto
      show ?thesis
      proof (cases m)
        case True
        with Done a B r1 r2 Rescue show ?thesis by simp
      next
        case False
        with r1 r2 obtain f1 f2 where "r1 = Some f1" "r2 = Some f2" by auto
        with False Done a B Rescue Cons.IH [of f1 w f2] show ?thesis by simp
      qed
    next
      case Panic
      with rel have "?B = Panic" by (cases ?B) auto
      with Panic Rescue show ?thesis by simp
    next
      case OutOfFuel
      with rel have "?B = OutOfFuel" by (cases ?B) auto
      with OutOfFuel Rescue show ?thesis by simp
    qed
  qed simp_all
qed

text \<open>
  C2. Let the protected body raise \<open>rubyErr\<close>, let the first exception-class name of the
  first rescue clause equal the display string of \<open>rubyErr\<close>, and let that clause's
  recovery body raise \<open>e1\<close>. Then the construct goes on exactly as the rescue iteration
  over the remaining names of that clause and the remaining clauses, started in the
  state the failed recovery left, still matching against \<open>rubyErr\<close>; the new error \<open>e1\<close>
  is only the error that is pending, and replacing it by any other error changes
  neither whether a later clause handles the construct nor the resulting state.
\<close>

theorem rescue_failed_recovery:
  assumes "executeWithContext B n context protected v = Done ((x0, Some rubyErr), v0)"
      and "isValue rubyErr"
      and "exceptionClass = displayString B rubyErr v0"
      and "executeWithContext B n context recovery v0 = Done ((x1, Some e1), v1)"
  shows "executeWithContext B (Suc n) context
           [Begin protected (Rescue (exceptionClass # names) recovery # clauses)] v =
         bindO (rescueClauses (executeWithContext B n) B context rubyErr
                  (Rescue names recovery # clauses) False (Some e1) v1)
           (\<lambda>(err, w). Done ((nil, err), w)) \<and>
         (\<forall>e2. bindO (rescueClauses (executeWithContext B n) B context rubyErr
                        (Rescue names recovery # clauses) False (Some e1) v1)
                  (\<lambda>(err, w). Done (err = None, w)) =
               bindO (rescueClauses (executeWithContext B n) B context rubyErr
                        (Rescue names recovery # clauses) False (Some e2) v1)
                  (\<lambda>(err, w). Done (err = None, w)))"
proof
  show "executeWithContext B (Suc n) context
           [Begin protected (Rescue (exceptionClass # names) recovery # clauses)] v =
         bindO (rescueClauses (executeWithContext B n) B context rubyErr
                  (Rescue names recovery # clauses) False (Some e1) v1)
           (\<lambda>(err, w). Done ((nil, err), w))"
    using assms
    by (auto simp: executeBody_def bindO_def split: outcome.splits prod.splits option.splits)
next
  show "\<forall>e2. bindO (rescueClauses (executeWithContext B n) B context rubyErr
                        (Rescue names recovery # clauses) False (Some e1) v1)
                  (\<lambda>(err, w). Done (err = None, w)) =
               bindO (rescueClauses (executeWithContext B n) B context rubyErr
                        (Rescue names recovery # clauses) False (Some e2) v1)
                  (\<lambda>(err, w). Done (err = None, w))"
    using rescueClauses_pending by blast
qed

theorem rescue_failed_recovery_witness:
  "errorOf (executeWithContext demoB (Suc (Suc 0)) demoMain [BareReference ''qux''] demoVM) =
     Some (Some (NameError ''qux'' ''#<Object>'' ''Object'' [])) \<and>
   errorOf (executeWithContext demoB (Suc (Suc 0)) demoMain
              [CallExpression (Some (GlobalVariable ''x'')) ''foo'' []] demoVM) =
     Some (Some (NoMethodError ''foo'' ''#<Nil>'' ''Nil'' [])) \<and>
   errorOf (executeWithContext demoB (Suc (Suc (Suc 0))) demoMain [rescueDemo] demoVM) = Some None \<and>
   map_option (\<lambda>w. (CurrentGlobals w ''a'', CurrentGlobals w ''b''))
     (stateOf (executeWithContext demoB (Suc (Suc (Suc 0))) demoMain [rescueDemo] demoVM)) =
     Some (None, Some (Ptr 25))"
proof -
  let ?e0 = "NameError ''qux'' ''#<Object>'' ''Object'' []"
  let ?e1 = "NoMethodError ''foo'' ''#<Nil>'' ''Nil'' []"
  let ?v1 = "demoVM\<lparr>heap := heap demoVM @ [blank0 KObject (Ptr 13)]\<rparr>"
  have p: "executeWithContext demoB (Suc (Suc 0)) demoMain [BareReference ''qux''] demoVM =
             Done ((nil, Some ?e0), demoVM)"
    by (simp add: eval_simps cong: bindO_weak_cong)
  have iv: "isValue ?e0" by simp
  have m: "''NameError'' = displayString demoB ?e0 demoVM"
    by (simp add: eval_simps)
  have f: "executeWithContext demoB (Suc (Suc 0)) demoMain
             [CallExpression (Some (GlobalVariable ''x'')) ''foo'' []] demoVM =
           Done ((nil, Some ?e1), ?v1)"
    by (simp add: eval_simps cong: bindO_weak_cong)
  note step = rescue_failed_recovery [OF p iv m f, THEN conjunct1,
      of "[]" "[Rescue [''NoMethodError''] [Assignment (GlobalVariable ''a'') (ConstantInt 1)],
        Rescue [''NameError''] [Assignment (GlobalVariable ''b'') (ConstantInt 2)]]"]
  have r: "executeWithContext demoB (Suc (Suc (Suc 0))) demoMain [rescueDemo] demoVM =
           Done ((nil, None),
             demoVM\<lparr>heap := heap demoVM @ [blank0 KObject (Ptr 13), blank0 (KFixnum 2) (Ptr 15)],
                    CurrentGlobals := (CurrentGlobals demoVM)(''b'' \<mapsto> Ptr 25)\<rparr>)"
    unfolding rescueDemo_def
    apply (subst step)
    apply (simp add: eval_simps cong: bindO_weak_cong)
    done
  show ?thesis
    unfolding r
    using p f by (simp add: proj_defs demo_defs)
qed

section \<open>The require closure\<close>

lemma requireLoop_all_fail:
  assumes "\<forall>p \<in> set members. p \<noteq> nil \<and>
             (\<exists>path. StringValue B p v = Some path \<and>
                (\<forall>c. OpenFile B (Join B path (fileName @ ''.rb'')) \<noteq> Contents c))"
  shows "requireLoop run B fileName members v =
     Done ((nil, Some (LoadError (''LoadError: cannot load such file -- '' @ fileName) (stack v))), v)"
  using assms
proof (induction members)
  case Nil
  show ?case by simp
next
  case (Cons p ps)
  then obtain path where "p \<noteq> nil" "StringValue B p v = Some path"
       "\<forall>c. OpenFile B (Join B path (fileName @ ''.rb'')) \<noteq> Contents c" 
    by auto
  with Cons show ?case 
    by (cases "OpenFile B (Join B path (fileName @ ''.rb''))") auto
qed

text \<open>
  C9. Let \<open>require\<close> be called with a string argument. If the name is not \<open>rubygems\<close> and,
  for every directory of the load path, the file \<open>name.rb\<close> in it cannot be opened or
  read, the call returns nil and a load error whose message ends with the requested
  name and which carries the current call stack; the vm is unchanged. If the name is
  \<open>rubygems\<close>, no file is looked for and nothing is run: the call returns a new instance
  of the class registered as \<open>False\<close>, with the error \<open>New\<close> returned (none, when \<open>New\<close>
  returns none).
\<close>

theorem require_missing_or_rubygems:
  assumes "a \<noteq> nil" and "StringValue B a v = Some fileName"
  shows "(fileName \<noteq> ''rubygems'' \<and> loadPath \<noteq> nil \<and> isArray B loadPath v \<and>
          (\<forall>p \<in> set (Members B loadPath v). p \<noteq> nil \<and>
             (\<exists>path. StringValue B p v = Some path \<and>
                (\<forall>c. OpenFile B (Join B path (fileName @ ''.rb'')) \<noteq> Contents c)))
          \<longrightarrow> require run B loadPath (a # as) v =
                Done ((nil, Some (LoadError (''LoadError: cannot load such file -- '' @ fileName)
                                    (stack v))), v)) \<and>
         (fileName = ''rubygems'' \<and> mapGet (CurrentClasses v) ''False'' = Ptr c \<and>
          ClassNew B (Ptr c) v = ((x, None), h)
          \<longrightarrow> require run B loadPath (a # as) v = Done ((x, None), v\<lparr>heap := h\<rparr>))"
  using assms requireLoop_all_fail [of "Members B loadPath v" B v fileName run]
  by (auto simp: require_def classNew_def)

theorem require_missing_or_rubygems_witness:
  "require (Run demoB 0) demoB (Ptr 18) [Ptr 24]
      (demoVM\<lparr>heap := heap demoVM @ [blank0 (KString ''missing_file'') (Ptr 14)]\<rparr>) =
     Done ((nil, Some (LoadError ''LoadError: cannot load such file -- missing_file'' [])),
           demoVM\<lparr>heap := heap demoVM @ [blank0 (KString ''missing_file'') (Ptr 14)]\<rparr>) \<and>
   require (Run demoB 0) demoB (Ptr 18) [Ptr 24]
      (demoVM\<lparr>heap := heap demoVM @ [blank0 (KString ''rubygems'') (Ptr 14)]\<rparr>) =
     Done ((Ptr 25, None),
           demoVM\<lparr>heap := heap demoVM @ [blank0 (KString ''rubygems'') (Ptr 14), blank0 KObject (Ptr 12)]\<rparr>)"
proof -
  let ?v = "demoVM\<lparr>heap := heap demoVM @ [blank0 (KString ''missing_file'') (Ptr 14)]\<rparr>"
  let ?w = "demoVM\<lparr>heap := heap demoVM @ [blank0 (KString ''rubygems'') (Ptr 14)]\<rparr>"
  have a: "Ptr 24 \<noteq> nil" by simp
  have s: "StringValue demoB (Ptr 24) ?v = Some ''missing_file''"
    by (simp add: eval_simps)
  have pre: "''missing_file'' \<noteq> ''rubygems'' \<and> Ptr 18 \<noteq> nil \<and> isArray demoB (Ptr 18) ?v \<and>
          (\<forall>p \<in> set (Members demoB (Ptr 18) ?v). p \<noteq> nil \<and>
             (\<exists>path. StringValue demoB p ?v = Some path \<and>
                (\<forall>c. OpenFile demoB (Join demoB path (''missing_file'' @ ''.rb'')) \<noteq> Contents c)))"
    by (simp add: eval_simps)
  have s': "StringValue demoB (Ptr 24) ?w = Some ''rubygems''"
    by (simp add: eval_simps)
  have pre': "''rubygems'' = ''rubygems'' \<and> mapGet (CurrentClasses ?w) ''False'' = Ptr 12 \<and>
          ClassNew demoB (Ptr 12) ?w = ((Ptr 25, None), heap ?w @ [blank0 KObject (Ptr 12)])"
    by (simp add: eval_simps)
  from require_missing_or_rubygems [OF a s, THEN conjunct1, rule_format, OF pre]
       require_missing_or_rubygems [OF a s', THEN conjunct2, rule_format, OF pre']
  show ?thesis
    by (simp add: demo_defs)
qed

end
